theory Spec2Isabelle
  imports Complex_Main
begin

section \<open>The compare-colleges page: view state\<close>

text \<open>
  The page component \<open>CompareColleges\<close> keeps its data in React state hooks. One event
  handler runs to its first \<open>await\<close> without interruption, so a handler is a function
  from the view state to the new view state and the list of effects it starts (requests
  and timers). The part of an asynchronous handler after its \<open>await\<close> is a second
  function, applied to the state of the moment the reply arrives: it only calls setters.
\<close>

record college =
  college_code :: string
  college_name :: string
  city :: string

record branch =
  branch_code :: string
  branch_name :: string

section \<open>JavaScript values of a trend point\<close>

text \<open>
  A number of the page is a real number or \<open>NaN\<close>: the infinities are left out, and so
  is the rounding of floating-point arithmetic in the chart; the average of the statistics
  panel rounds, see there. The fields of a trend point arrive from
  \<open>JSON.parse\<close> and may be absent (\<open>undefined\<close>), \<open>null\<close>, a boolean, a number or a
  string.
\<close>

datatype jsnum = NaN | Fin real

datatype jsval = JUndefined | JNull | JBool bool | JNum real | JNaN | JStr string

record trend_point =
  year :: jsval
  val :: jsval

record entry =
  entry_name :: string
  trend :: "trend_point list option"

record comparison_result =
  result_branch :: string
  comparison :: "entry list option"

record loading_flags =
  l_search :: bool
  l_branches :: bool
  l_compare :: bool
  l_initial :: bool

record view =
  searchQuery :: string
  colleges :: "college list"
  selectedColleges :: "college list"
  branches :: "branch list"
  selectedBranch :: string
  comparisonData :: "comparison_result option"
  loading :: loading_flags
  error :: string

datatype request =
    GetColleges string
  | PostBranches "string list"
  | PostCompare "string list" string

datatype effect = Fetch request | ClearErrorAfter3s

definition initial_view :: view where
  "initial_view =
     \<lparr>searchQuery = [], colleges = [], selectedColleges = [], branches = [],
      selectedBranch = [], comparisonData = None,
      loading = \<lparr>l_search = False, l_branches = False, l_compare = False, l_initial = True\<rparr>,
      error = []\<rparr>"

section \<open>Search, selection and branch resolution\<close>

text \<open>
  \<open>handleSearch\<close> up to its \<open>await fetch\<close>. The length of the query is the number
  of its characters.
\<close>

definition handleSearch :: "string \<Rightarrow> view \<Rightarrow> view \<times> effect list" where
  "handleSearch query s =
     (let s1 = s\<lparr>searchQuery := query\<rparr> in
      if length query < 2 \<and> length query > 0 then (s1, [])
      else (s1\<lparr>loading := (loading s1)\<lparr>l_search := True\<rparr>, error := []\<rparr>,
            [Fetch (GetColleges query)]))"

text \<open>\<open>loadBranches\<close> up to its \<open>await fetch\<close>.\<close>

definition loadBranches :: "string list \<Rightarrow> view \<Rightarrow> view \<times> effect list" where
  "loadBranches codes s =
     (s\<lparr>loading := (loading s)\<lparr>l_branches := True\<rparr>\<rparr>, [Fetch (PostBranches codes)])"

definition selectCollege :: "college \<Rightarrow> view \<Rightarrow> view \<times> effect list" where
  "selectCollege c s =
     (if find (\<lambda>x. college_code x = college_code c) (selectedColleges s) \<noteq> None
      then (s\<lparr>error := ''This college is already selected''\<rparr>, [ClearErrorAfter3s])
      else if length (selectedColleges s) \<ge> 3
      then (s\<lparr>error := ''Maximum 3 colleges can be selected''\<rparr>, [ClearErrorAfter3s])
      else
        (let newSelection = selectedColleges s @ [c];
             s1 = s\<lparr>selectedColleges := newSelection, searchQuery := [], error := [],
                    comparisonData := None\<rparr>
         in if length newSelection \<ge> 2
            then loadBranches (map college_code newSelection) s1
            else (s1, [])))"

definition removeCollege :: "string \<Rightarrow> view \<Rightarrow> view \<times> effect list" where
  "removeCollege code s =
     (let newSelection = filter (\<lambda>x. college_code x \<noteq> code) (selectedColleges s);
          s1 = s\<lparr>selectedColleges := newSelection, comparisonData := None, error := []\<rparr>
      in if length newSelection < 2
         then (s1\<lparr>branches := [], selectedBranch := []\<rparr>, [])
         else loadBranches (map college_code newSelection) s1)"

text \<open>The branch drop-down: \<open>onChange={(e) => setSelectedBranch(e.target.value)}\<close>.\<close>

definition setSelectedBranch :: "string \<Rightarrow> view \<Rightarrow> view" where
  "setSelectedBranch b s = s\<lparr>selectedBranch := b\<rparr>"

datatype event = Select college | Remove string

fun step :: "event \<Rightarrow> view \<Rightarrow> view" where
  "step (Select c) s = fst (selectCollege c s)"
| "step (Remove code) s = fst (removeCollege code s)"

fun run :: "event list \<Rightarrow> view \<Rightarrow> view" where
  "run [] s = s"
| "run (e # es) s = run es (step e s)"

section \<open>The comparison request\<close>

text \<open>
  The body of a reply, as far as \<open>handleCompare\<close> reads it. A field that is absent or
  \<open>null\<close> is \<open>None\<close>; \<open>success\<close> holds when the field is truthy.
\<close>

record compare_body =
  success :: bool
  data :: "comparison_result option"
  body_error :: "string option"
  body_message :: "string option"

text \<open>
  \<open>res.json()\<close> resolves to a body or rejects with the message of a syntax error;
  \<open>fetch\<close> resolves to a status and a body or rejects with the message of its error.
\<close>

datatype parsed = BadJson string | Json compare_body

datatype compare_reply = Rejected string | Reply nat parsed

definition res_ok :: "nat \<Rightarrow> bool" where
  "res_ok status = (200 \<le> status \<and> status \<le> 299)"

text \<open>
  An optional string is truthy when it is present and not empty; \<open>str_or a b\<close> is
  \<open>a || b\<close>, which is \<open>a\<close> itself when \<open>a\<close> is truthy.
\<close>

fun truthy :: "string option \<Rightarrow> bool" where
  "truthy None = False"
| "truthy (Some a) = (a \<noteq> [])"

fun str_or :: "string option \<Rightarrow> string \<Rightarrow> string" where
  "str_or None d = d"
| "str_or (Some a) d = (if a = [] then d else a)"

definition digit_char :: "nat \<Rightarrow> char" where
  "digit_char n = ''0123456789'' ! (n mod 10)"

fun show_nat :: "nat \<Rightarrow> string" where
  "show_nat n = (if n < 10 then [digit_char n] else show_nat (n div 10) @ [digit_char (n mod 10)])"

definition empty_body :: compare_body where
  "empty_body = \<lparr>success = False, data = None, body_error = None, body_message = None\<rparr>"

text \<open>\<open>handleCompare\<close> up to its \<open>await fetch\<close>.\<close>

definition handleCompare :: "view \<Rightarrow> view \<times> effect list" where
  "handleCompare s =
     (if length (selectedColleges s) < 2
      then (s\<lparr>error := ''Please select at least 2 colleges''\<rparr>, [])
      else if selectedBranch s = []
      then (s\<lparr>error := ''Please select a branch''\<rparr>, [])
      else (s\<lparr>loading := (loading s)\<lparr>l_compare := True\<rparr>, error := []\<rparr>,
            [Fetch (PostCompare (map college_code (selectedColleges s)) (selectedBranch s))]))"

text \<open>The \<open>catch\<close> block and the \<open>finally\<close> block of \<open>handleCompare\<close>.\<close>

definition compare_catch :: "string \<Rightarrow> view \<Rightarrow> view" where
  "compare_catch msg s =
     s\<lparr>error := str_or (Some msg) ''Failed to compare colleges'', comparisonData := None\<rparr>"

definition compare_finally :: "view \<Rightarrow> view" where
  "compare_finally s = s\<lparr>loading := (loading s)\<lparr>l_compare := False\<rparr>\<rparr>"

text \<open>\<open>handleCompare\<close> from the reply of \<open>fetch\<close> on.\<close>

definition handleCompare_reply :: "compare_reply \<Rightarrow> view \<Rightarrow> view" where
  "handleCompare_reply r s =
     compare_finally
       (case r of
          Rejected msg \<Rightarrow> compare_catch msg s
        | Reply status p \<Rightarrow>
            if \<not> res_ok status then
              (let errorData = (case p of BadJson _ \<Rightarrow> empty_body | Json b \<Rightarrow> b) in
               compare_catch
                 (str_or (body_message errorData)
                    (str_or (body_error errorData)
                       (''HTTP '' @ show_nat status @ '': Comparison failed''))) s)
            else
              (case p of
                 BadJson msg \<Rightarrow> compare_catch msg s
               | Json d \<Rightarrow>
                   if success d \<and> data d \<noteq> None then s\<lparr>comparisonData := data d\<rparr>
                   else if truthy (body_error d)
                   then s\<lparr>error := str_or (body_error d) [], comparisonData := None\<rparr>
                   else s\<lparr>error := ''Failed to compare colleges - invalid response format'',
                          comparisonData := None\<rparr>))"

section \<open>The trend chart (\<open>ComparisonGraph.jsx\<close>)\<close>

text \<open>
  \<open>Number(v)\<close> and \<open>isNaN(v)\<close>. The conversion of a string is the host's and is a
  parameter \<open>N\<close> of every function that converts.
\<close>

fun toNumber :: "(string \<Rightarrow> jsnum) \<Rightarrow> jsval \<Rightarrow> jsnum" where
  "toNumber N JUndefined = NaN"
| "toNumber N JNull = Fin 0"
| "toNumber N (JBool b) = Fin (if b then 1 else 0)"
| "toNumber N (JNum r) = Fin r"
| "toNumber N JNaN = NaN"
| "toNumber N (JStr s) = N s"

definition isNaN :: "(string \<Rightarrow> jsnum) \<Rightarrow> jsval \<Rightarrow> bool" where
  "isNaN N v = (toNumber N v = NaN)"

text \<open>The test \<open>v !== undefined && v !== null && !isNaN(v)\<close>.\<close>

definition present_number :: "(string \<Rightarrow> jsnum) \<Rightarrow> jsval \<Rightarrow> bool" where
  "present_number N v = (v \<noteq> JUndefined \<and> v \<noteq> JNull \<and> \<not> isNaN N v)"

text \<open>\<open>Number(v)\<close> under that test: the number pushed, or nothing.\<close>

definition checked :: "(string \<Rightarrow> jsnum) \<Rightarrow> jsval \<Rightarrow> real option" where
  "checked N v =
     (if present_number N v then (case toNumber N v of Fin r \<Rightarrow> Some r | NaN \<Rightarrow> None)
      else None)"

text \<open>\<open>college.trend || []\<close>, and the guard \<open>college.trend && Array.isArray(college.trend)\<close>.\<close>

definition trend_or_empty :: "entry \<Rightarrow> trend_point list" where
  "trend_or_empty c = (case trend c of None \<Rightarrow> [] | Some ts \<Rightarrow> ts)"

definition allYears :: "(string \<Rightarrow> jsnum) \<Rightarrow> entry list \<Rightarrow> real list" where
  "allYears N cs = concat (map (\<lambda>c. List.map_filter (\<lambda>t. checked N (year t)) (trend_or_empty c)) cs)"

definition uniqueYears :: "(string \<Rightarrow> jsnum) \<Rightarrow> entry list \<Rightarrow> real list" where
  "uniqueYears N cs = sort (remdups (allYears N cs))"

definition allValues :: "(string \<Rightarrow> jsnum) \<Rightarrow> entry list \<Rightarrow> real list" where
  "allValues N cs = concat (map (\<lambda>c. List.map_filter (\<lambda>t. checked N (val t)) (trend_or_empty c)) cs)"

definition graphHeight :: real where "graphHeight = 320"
definition graphWidth :: real where "graphWidth = 700"
definition padding_left :: real where "padding_left = 60"
definition padding_right :: real where "padding_right = 30"
definition padding_top :: real where "padding_top = 20"
definition padding_bottom :: real where "padding_bottom = 60"
definition chartWidth :: real where "chartWidth = graphWidth - padding_left - padding_right"
definition chartHeight :: real where "chartHeight = graphHeight - padding_top - padding_bottom"

text \<open>The valid points of one college as (year, value), sorted by year (the sort is stable).\<close>

definition valid_pair :: "(string \<Rightarrow> jsnum) \<Rightarrow> trend_point \<Rightarrow> (real \<times> real) option" where
  "valid_pair N t =
     (if present_number N (year t) \<and> present_number N (val t)
      then (case (toNumber N (year t), toNumber N (val t)) of
              (Fin y, Fin v) \<Rightarrow> Some (y, v)
            | _ \<Rightarrow> None)
      else None)"

definition validPoints :: "(string \<Rightarrow> jsnum) \<Rightarrow> entry \<Rightarrow> (real \<times> real) list" where
  "validPoints N c = sort_key fst (List.map_filter (valid_pair N) (trend_or_empty c))"

fun indexOf :: "'a list \<Rightarrow> 'a \<Rightarrow> nat option" where
  "indexOf [] a = None"
| "indexOf (x # xs) a = (if x = a then Some 0 else map_option Suc (indexOf xs a))"

record point =
  px :: real
  py :: real
  pvalue :: real
  pyear :: real
  isValid :: bool

text \<open>
  One plotted point. \<open>isValid\<close> is \<open>!isNaN(x) && !isNaN(y)\<close>; both coordinates are
  real numbers here, so it holds.
\<close>

definition mk_point :: "real list \<Rightarrow> nat \<Rightarrow> real \<Rightarrow> real \<Rightarrow> nat \<times> real \<times> real \<Rightarrow> point" where
  "mk_point years n minVal rng ip =
     (case ip of (i, y, v) \<Rightarrow>
        (let x = (case indexOf years y of
                    Some yearIndex \<Rightarrow>
                      padding_left + (real yearIndex / max (real (length years) - 1) 1) * chartWidth
                  | None \<Rightarrow> padding_left + (real i / max (real n - 1) 1) * chartWidth);
             normalized = ((v - minVal) / rng) * chartHeight;
             y' = padding_top + chartHeight - normalized
         in \<lparr>px = x, py = y', pvalue = v, pyear = y, isValid = True\<rparr>))"

text \<open>The line of one college: \<open>None\<close> where the component returns \<open>null\<close>.\<close>

definition college_series ::
    "(string \<Rightarrow> jsnum) \<Rightarrow> real list \<Rightarrow> real \<Rightarrow> real \<Rightarrow> entry \<Rightarrow> point list option" where
  "college_series N years minVal rng c =
     (let vp = validPoints N c in
      if length vp = 0 then None
      else
        (let points = map (mk_point years (length vp) minVal rng) (enumerate 0 vp);
             validPathPoints = filter isValid points
         in if length validPathPoints < 2 then None else Some validPathPoints))"

record chart =
  c_minVal :: real
  c_maxVal :: real
  c_range :: real
  c_uniqueYears :: "real list"
  c_series :: "point list option list"

datatype rendered = NoComparisonData | NoTrendData | NoValues | Chart chart

definition ComparisonGraph :: "(string \<Rightarrow> jsnum) \<Rightarrow> comparison_result option \<Rightarrow> rendered" where
  "ComparisonGraph N d =
     (case d of
        None \<Rightarrow> NoComparisonData
      | Some r \<Rightarrow>
          (case comparison r of
             None \<Rightarrow> NoComparisonData
           | Some [] \<Rightarrow> NoComparisonData
           | Some cs \<Rightarrow>
               (let years = uniqueYears N cs in
                if length years = 0 then NoTrendData
                else
                  (case allValues N cs of
                     [] \<Rightarrow> NoValues
                   | v # vs \<Rightarrow>
                       (let minVal = fold min vs v;
                            maxVal = fold max vs v;
                            rng = max (maxVal - minVal) 1
                        in Chart \<lparr>c_minVal = minVal, c_maxVal = maxVal, c_range = rng,
                                  c_uniqueYears = years,
                                  c_series = map (college_series N years minVal rng) cs\<rparr>)))))"

section \<open>The chart inside the page (\<open>CompareColleges\<close>), scaling only\<close>

text \<open>\<open>Math.min\<close> and \<open>Math.max\<close> of two numbers: \<open>NaN\<close> when either is.\<close>

fun jmin :: "jsnum \<Rightarrow> jsnum \<Rightarrow> jsnum" where
  "jmin (Fin a) (Fin b) = Fin (min a b)"
| "jmin _ _ = NaN"

fun jmax :: "jsnum \<Rightarrow> jsnum \<Rightarrow> jsnum" where
  "jmax (Fin a) (Fin b) = Fin (max a b)"
| "jmax _ _ = NaN"

definition page_allValues :: "entry list \<Rightarrow> jsval list" where
  "page_allValues cs = concat (map (\<lambda>c. map val (trend_or_empty c)) cs)"

text \<open>
  \<open>range = maxVal - minVal || 1\<close> with \<open>minVal = Math.floor(Math.min(...allValues) - 2)\<close>
  and \<open>maxVal = Math.ceil(Math.max(...allValues) + 2)\<close>; \<open>None\<close> where the component
  has returned a placeholder before (no entry, or no trend point at all).
\<close>

definition page_range :: "(string \<Rightarrow> jsnum) \<Rightarrow> entry list \<Rightarrow> real option" where
  "page_range N cs =
     (case map (toNumber N) (page_allValues cs) of
        [] \<Rightarrow> None
      | v # vs \<Rightarrow>
          Some (case (fold jmin vs v, fold jmax vs v) of
                  (Fin lo, Fin hi) \<Rightarrow>
                    (let minVal = \<lfloor>lo - 2\<rfloor>; maxVal = \<lceil>hi + 2\<rceil>; r = maxVal - minVal
                     in if r = 0 then 1 else real_of_int r)
                | _ \<Rightarrow> 1))"

section \<open>The average of the statistics panel\<close>

text \<open>
  The arithmetic of the page is that of doubles: the result of \<open>a + b\<close> or \<open>a / b\<close> is
  the exact result rounded to a double. The rounding is the host's and is a parameter
  \<open>rd\<close> of every function that computes with it.
\<close>

text \<open>
  The accumulator of \<open>reduce((sum, t) => sum + t.value, 0)\<close>: a number, or a string once
  a string operand has made \<open>+\<close> concatenate.
\<close>

datatype acc = ANum jsnum | AStr

fun jadd :: "(real \<Rightarrow> real) \<Rightarrow> jsnum \<Rightarrow> jsnum \<Rightarrow> jsnum" where
  "jadd rd (Fin a) (Fin b) = Fin (rd (a + b))"
| "jadd rd _ _ = NaN"

fun js_plus :: "(real \<Rightarrow> real) \<Rightarrow> acc \<Rightarrow> jsval \<Rightarrow> acc" where
  "js_plus rd AStr v = AStr"
| "js_plus rd (ANum a) (JStr s) = AStr"
| "js_plus rd (ANum a) JUndefined = ANum (jadd rd a NaN)"
| "js_plus rd (ANum a) JNull = ANum (jadd rd a (Fin 0))"
| "js_plus rd (ANum a) (JBool b) = ANum (jadd rd a (Fin (if b then 1 else 0)))"
| "js_plus rd (ANum a) (JNum r) = ANum (jadd rd a (Fin r))"
| "js_plus rd (ANum a) JNaN = ANum (jadd rd a NaN)"

text \<open>
  \<open>x.toFixed(2)\<close> of a double \<open>x\<close> (below \<open>10 ^ 21\<close>, where it prints digits): the
  multiple of 1/100 nearest to the exact value of \<open>x\<close>, a tie going away from zero.
\<close>

definition round2 :: "real \<Rightarrow> real" where
  "round2 x = sgn x * real_of_int \<lfloor>\<bar>x\<bar> * 100 + 1 / 2\<rfloor> / 100"

fun toFixed2 :: "jsnum \<Rightarrow> jsnum" where
  "toFixed2 NaN = NaN"
| "toFixed2 (Fin x) = Fin (round2 x)"

fun jdiv :: "(real \<Rightarrow> real) \<Rightarrow> jsnum \<Rightarrow> nat \<Rightarrow> jsnum" where
  "jdiv rd NaN n = NaN"
| "jdiv rd (Fin a) n = Fin (rd (a / real n))"

text \<open>
  What the Average cell shows: \<open>N/A\<close>, the text of a number with two decimals
  (\<open>NaN\<close> prints as such), or a text derived from concatenated strings.
\<close>

datatype shown = NotAvailable | Decimals jsnum | FromConcatenation

definition average_display :: "(real \<Rightarrow> real) \<Rightarrow> entry \<Rightarrow> shown" where
  "average_display rd c =
     (case trend c of
        None \<Rightarrow> NotAvailable
      | Some ts \<Rightarrow>
          if length ts > 0
          then (case foldl (js_plus rd) (ANum (Fin 0)) (map val ts) of
                  ANum sm \<Rightarrow> Decimals (toFixed2 (jdiv rd sm (length ts)))
                | AStr \<Rightarrow> FromConcatenation)
          else NotAvailable)"

section \<open>Rounding to a double\<close>

text \<open>
  Rounding to the nearest integer, a tie going to the even one, and with it the rounding
  of a real number to the nearest number with a significand of 53 bits, which is the
  nearest double as long as the exponent stays in the range of doubles.
\<close>

definition rne :: "real \<Rightarrow> int" where
  "rne m =
     (let f = \<lfloor>m\<rfloor> in
      if m - real_of_int f < 1 / 2 then f
      else if 1 / 2 < m - real_of_int f then f + 1
      else if even f then f else f + 1)"

definition round53 :: "real \<Rightarrow> real" where
  "round53 x =
     (if x = 0 then 0
      else (let q = \<lfloor>log 2 \<bar>x\<bar>\<rfloor> - 52
            in real_of_int (rne (x / 2 powr real_of_int q)) * 2 powr real_of_int q))"

section \<open>Notions of the specification\<close>

text \<open>
  A value that the specification excludes, by its words: undefined, null, or not a number.
\<close>

fun non_numeric :: "jsval \<Rightarrow> bool" where
  "non_numeric (JNum r) = False"
| "non_numeric v = True"

text \<open>
  A value that the chart excludes: undefined, null, \<open>NaN\<close>, or a string that the host
  does not convert to a number.
\<close>

fun excluded_value :: "(string \<Rightarrow> jsnum) \<Rightarrow> jsval \<Rightarrow> bool" where
  "excluded_value N JUndefined = True"
| "excluded_value N JNull = True"
| "excluded_value N JNaN = True"
| "excluded_value N (JStr s) = (N s = NaN)"
| "excluded_value N (JBool b) = False"
| "excluded_value N (JNum r) = False"

definition drop_excluded :: "(string \<Rightarrow> jsnum) \<Rightarrow> entry \<Rightarrow> entry" where
  "drop_excluded N c =
     c\<lparr>trend := map_option (filter (\<lambda>t. \<not> excluded_value N (val t))) (trend c)\<rparr>"

definition drop_result :: "(string \<Rightarrow> jsnum) \<Rightarrow> comparison_result \<Rightarrow> comparison_result" where
  "drop_result N r = r\<lparr>comparison := map_option (map (drop_excluded N)) (comparison r)\<rparr>"

text \<open>What of a plotted point does not depend on the shared axis of years.\<close>

definition plotted :: "point \<Rightarrow> real \<times> real \<times> real" where
  "plotted p = (pyear p, pvalue p, py p)"

text \<open>The arithmetic mean of the valid values of a series.\<close>

definition mean_valid :: "(string \<Rightarrow> jsnum) \<Rightarrow> entry \<Rightarrow> real" where
  "mean_valid N c =
     (let vs = List.map_filter (\<lambda>t. checked N (val t)) (trend_or_empty c)
      in sum_list vs / real (length vs))"

text \<open>
  The values of a series of numbers, their sum in the arithmetic of doubles, added from
  the left and starting from \<open>a\<close>, and the mean of the absolute values.
\<close>

definition numbers :: "(string \<Rightarrow> jsnum) \<Rightarrow> trend_point list \<Rightarrow> real list" where
  "numbers N ts = List.map_filter (\<lambda>t. checked N (val t)) ts"

fun double_sum :: "(real \<Rightarrow> real) \<Rightarrow> real \<Rightarrow> real list \<Rightarrow> real" where
  "double_sum rd a [] = a"
| "double_sum rd a (x # xs) = double_sum rd (rd (a + x)) xs"

definition double_mean :: "(real \<Rightarrow> real) \<Rightarrow> real list \<Rightarrow> real" where
  "double_mean rd xs = rd (double_sum rd 0 xs / real (length xs))"

definition mean_abs :: "real list \<Rightarrow> real" where
  "mean_abs xs = sum_list (map abs xs) / real (length xs)"

text \<open>A reply that is an error: anything but a 2xx body with \<open>success\<close> and \<open>data\<close>.\<close>

fun is_error_reply :: "compare_reply \<Rightarrow> bool" where
  "is_error_reply (Rejected msg) = True"
| "is_error_reply (Reply status (BadJson msg)) = True"
| "is_error_reply (Reply status (Json d)) = (\<not> res_ok status \<or> \<not> (success d \<and> data d \<noteq> None))"

text \<open>A series whose values are all numbers.\<close>

definition number_values :: "trend_point list \<Rightarrow> bool" where
  "number_values ts = list_all (\<lambda>t. case val t of JNum r \<Rightarrow> True | _ \<Rightarrow> False) ts"

section \<open>Example inputs\<close>

definition ex_college :: "string \<Rightarrow> college" where
  "ex_college code = \<lparr>college_code = code, college_name = ''College '' @ code, city = ''Pune''\<rparr>"

definition ex_result :: comparison_result where
  "ex_result = \<lparr>result_branch = ''IT'', comparison = Some []\<rparr>"

definition ex_view :: view where
  "ex_view = initial_view\<lparr>selectedColleges := [ex_college ''A'', ex_college ''B''],
     selectedBranch := ''IT'', comparisonData := Some ex_result\<rparr>"

definition ex_view3 :: view where
  "ex_view3 = ex_view\<lparr>selectedColleges := [ex_college ''A'', ex_college ''B'', ex_college ''C'']\<rparr>"

definition ex_body :: compare_body where
  "ex_body = \<lparr>success = False, data = None, body_error = Some ''no data'', body_message = None\<rparr>"

text \<open>A string conversion for the examples: no string is a number.\<close>

definition no_strings :: "string \<Rightarrow> jsnum" where
  "no_strings s = NaN"

definition ex_flat_entries :: "entry list" where
  "ex_flat_entries =
     [\<lparr>entry_name = ''A'', trend = Some [\<lparr>year = JNum 2022, val = JNum 95\<rparr>,
                                          \<lparr>year = JNum 2021, val = JNum 95\<rparr>]\<rparr>]"

definition ex_flat :: comparison_result where
  "ex_flat = \<lparr>result_branch = ''IT'', comparison = Some ex_flat_entries\<rparr>"

definition ex_flat_chart :: chart where
  "ex_flat_chart =
     \<lparr>c_minVal = 95, c_maxVal = 95, c_range = 1, c_uniqueYears = [2021, 2022],
      c_series = [Some [\<lparr>px = 60, py = 260, pvalue = 95, pyear = 2021, isValid = True\<rparr>,
                        \<lparr>px = 670, py = 260, pvalue = 95, pyear = 2022, isValid = True\<rparr>]]\<rparr>"

definition ex_trends_chart :: chart where
  "ex_trends_chart =
     \<lparr>c_minVal = 91, c_maxVal = 96, c_range = 5, c_uniqueYears = [2021, 2022, 2023],
      c_series = [Some [\<lparr>px = 60, py = 20, pvalue = 96, pyear = 2021, isValid = True\<rparr>,
                        \<lparr>px = 365, py = 116, pvalue = 94, pyear = 2022, isValid = True\<rparr>],
                  None]\<rparr>"

definition ex_trends :: comparison_result where
  "ex_trends = \<lparr>result_branch = ''IT'', comparison = Some
     [\<lparr>entry_name = ''A'', trend = Some [\<lparr>year = JNum 2022, val = JNum 94\<rparr>,
                                          \<lparr>year = JNum 2021, val = JNum 96\<rparr>,
                                          \<lparr>year = JNum 2023, val = JNull\<rparr>]\<rparr>,
      \<lparr>entry_name = ''B'', trend = Some [\<lparr>year = JNum 2021, val = JNum 91\<rparr>]\<rparr>]\<rparr>"

definition ex_gap :: entry where
  "ex_gap = \<lparr>entry_name = ''B'', trend = Some [\<lparr>year = JNum 2021, val = JNum 90\<rparr>,
       \<lparr>year = JNum 2022, val = JNull\<rparr>]\<rparr>"

text \<open>The series 90, 90.01, the second value being the double that 90.01 parses to.\<close>

definition ex_cents_points :: "trend_point list" where
  "ex_cents_points =
     [\<lparr>year = JNum 2021, val = JNum 90\<rparr>,
      \<lparr>year = JNum 2022, val = JNum (6333890663431537 / 70368744177664)\<rparr>]"

definition ex_cents :: entry where
  "ex_cents = \<lparr>entry_name = ''C'', trend = Some ex_cents_points\<rparr>"

definition ex_bool_entries :: "entry list" where
  "ex_bool_entries =
     [\<lparr>entry_name = ''A'', trend = Some [\<lparr>year = JNum 2021, val = JBool True\<rparr>,
                                          \<lparr>year = JNum 2022, val = JNum 95\<rparr>]\<rparr>]"

definition ex_bool :: comparison_result where
  "ex_bool = \<lparr>result_branch = ''IT'', comparison = Some ex_bool_entries\<rparr>"

definition ex_bool_chart :: chart where
  "ex_bool_chart =
     \<lparr>c_minVal = 1, c_maxVal = 95, c_range = 94, c_uniqueYears = [2021, 2022],
      c_series = [Some [\<lparr>px = 60, py = 260, pvalue = 1, pyear = 2021, isValid = True\<rparr>,
                        \<lparr>px = 670, py = 20, pvalue = 95, pyear = 2022, isValid = True\<rparr>]]\<rparr>"

definition ex_dropped_chart :: chart where
  "ex_dropped_chart =
     \<lparr>c_minVal = 91, c_maxVal = 96, c_range = 5, c_uniqueYears = [2021, 2022],
      c_series = [Some [\<lparr>px = 60, py = 20, pvalue = 96, pyear = 2021, isValid = True\<rparr>,
                        \<lparr>px = 670, py = 116, pvalue = 94, pyear = 2022, isValid = True\<rparr>],
                  None]\<rparr>"

section \<open>Selection, search and validation\<close>

lemma run_le3: "length (selectedColleges s) \<le> 3 \<Longrightarrow> length (selectedColleges (run es s)) \<le> 3"
proof (induction es arbitrary: s)
  case Nil
  then show ?case by simp
next
  case (Cons e es)
  have "length (selectedColleges (step e s)) \<le> 3"
  proof (cases e)
    case (Select c)
    with Cons.prems show ?thesis
      by (auto simp: selectCollege_def loadBranches_def Let_def)
  next
    case (Remove code)
    have "length (filter (\<lambda>x. college_code x \<noteq> code) (selectedColleges s)) \<le> 3"
      using Cons.prems length_filter_le [of "\<lambda>x. college_code x \<noteq> code" "selectedColleges s"]
      by linarith
    with Remove show ?thesis
      by (auto simp: removeCollege_def loadBranches_def Let_def)
  qed
  then show ?case using Cons.IH by simp
qed

lemma find_code:
  "(find (\<lambda>x. college_code x = k) xs = None) = (k \<notin> set (map college_code xs))"
  by (induction xs) auto

text \<open>
  Claim C2. Whatever sequence of \<open>selectCollege\<close> and \<open>removeCollege\<close> calls the page
  has seen since it was mounted, at most three colleges are selected; and a call of
  \<open>selectCollege\<close> with three colleges selected changes nothing but the error message,
  which it sets to one of two non-empty texts, and starts nothing but the timer that
  clears the message.
\<close>

theorem C2_selection_at_most_three:
  "length (selectedColleges (run es initial_view)) \<le> 3 \<and>
   (length (selectedColleges s) = 3 \<longrightarrow>
      selectCollege c s =
        (s\<lparr>error := (if college_code c \<in> set (map college_code (selectedColleges s))
                      then ''This college is already selected''
                      else ''Maximum 3 colleges can be selected'')\<rparr>,
         [ClearErrorAfter3s]))"
proof -
  have "length (selectedColleges (run es initial_view)) \<le> 3"
    by (rule run_le3) (simp add: initial_view_def)
  moreover have "length (selectedColleges s) = 3 \<longrightarrow>
      selectCollege c s =
        (s\<lparr>error := (if college_code c \<in> set (map college_code (selectedColleges s))
                      then ''This college is already selected''
                      else ''Maximum 3 colleges can be selected'')\<rparr>,
         [ClearErrorAfter3s])"
    using find_code [of "college_code c" "selectedColleges s"]
    by (cases "find (\<lambda>x. college_code x = college_code c) (selectedColleges s)")
      (auto simp: selectCollege_def)
  ultimately show ?thesis by simp
qed

theorem C2_witness:
  "length (selectedColleges (run [Select (ex_college ''A''), Select (ex_college ''B''),
       Select (ex_college ''C''), Select (ex_college ''D'')] initial_view)) \<le> 3 \<and>
   length (selectedColleges (run [Select (ex_college ''A''), Select (ex_college ''B''),
       Select (ex_college ''C'')] initial_view)) = 3 \<and>
   snd (selectCollege (ex_college ''D'') (run [Select (ex_college ''A''), Select (ex_college ''B''),
       Select (ex_college ''C'')] initial_view)) = [ClearErrorAfter3s] \<and>
   selectedColleges (fst (selectCollege (ex_college ''D'') (run [Select (ex_college ''A''), Select (ex_college ''B''),
       Select (ex_college ''C'')] initial_view))) = [ex_college ''A'', ex_college ''B'', ex_college ''C''] \<and>
   error (fst (selectCollege (ex_college ''D'') (run [Select (ex_college ''A''), Select (ex_college ''B''),
       Select (ex_college ''C'')] initial_view))) = ''Maximum 3 colleges can be selected''"
  using C2_selection_at_most_three [of "[Select (ex_college ''A''), Select (ex_college ''B''),
       Select (ex_college ''C''), Select (ex_college ''D'')]"
     "run [Select (ex_college ''A''), Select (ex_college ''B''), Select (ex_college ''C'')] initial_view"
     "ex_college ''D''"]
  by (simp add: selectCollege_def loadBranches_def initial_view_def ex_college_def)

text \<open>
  Claim C3. With fewer than two colleges selected, or with no branch chosen,
  \<open>handleCompare\<close> sets a validation message, changes nothing else and issues no request.
\<close>

theorem C3_validation_before_request:
  "length (selectedColleges s) < 2 \<or> selectedBranch s = [] \<Longrightarrow>
   handleCompare s =
     (s\<lparr>error := (if length (selectedColleges s) < 2 then ''Please select at least 2 colleges''
                  else ''Please select a branch'')\<rparr>, [])"
  by (auto simp: handleCompare_def)

theorem C3_witness:
  "(length (selectedColleges initial_view) < 2 \<or> selectedBranch initial_view = []) \<and>
   handleCompare initial_view = (initial_view\<lparr>error := ''Please select at least 2 colleges''\<rparr>, []) \<and>
   (length (selectedColleges (ex_view\<lparr>selectedBranch := []\<rparr>)) < 2 \<or> selectedBranch (ex_view\<lparr>selectedBranch := []\<rparr>) = []) \<and>
   handleCompare (ex_view\<lparr>selectedBranch := []\<rparr>) = (ex_view\<lparr>selectedBranch := [], error := ''Please select a branch''\<rparr>, [])"
  using C3_validation_before_request [of initial_view]
    C3_validation_before_request [of "ex_view\<lparr>selectedBranch := []\<rparr>"]
  by (simp add: initial_view_def ex_view_def ex_college_def)

text \<open>
  Claim C10. \<open>handleSearch\<close> with a query of length exactly 1 stores the query text,
  issues no request and leaves every other part of the view as it was; a query of any
  other length (0, or 2 and more) starts the colleges request for that query.
\<close>

theorem C10_single_character_query:
  "(length q = 1 \<longrightarrow> handleSearch q s = (s\<lparr>searchQuery := q\<rparr>, [])) \<and>
   (length q' \<noteq> 1 \<longrightarrow> snd (handleSearch q' s') = [Fetch (GetColleges q')])"
  by (cases q') (auto simp: handleSearch_def Let_def)

theorem C10_witness:
  "length ''p'' = 1 \<and> handleSearch ''p'' ex_view = (ex_view\<lparr>searchQuery := ''p''\<rparr>, []) \<and>
   length ''pu'' \<noteq> 1 \<and> snd (handleSearch ''pu'' ex_view) = [Fetch (GetColleges ''pu'')] \<and>
   length '''' \<noteq> 1 \<and> snd (handleSearch '''' ex_view) = [Fetch (GetColleges '''')]"
  using C10_single_character_query [of "''p''" ex_view "''pu''" ex_view]
    C10_single_character_query [of "''p''" ex_view "''''" ex_view]
  by simp

section \<open>Selection changes, removal and error replies\<close>

lemma filter_code_shorter:
  "code \<in> set (map college_code xs) \<Longrightarrow>
   length (filter (\<lambda>x. college_code x \<noteq> code) xs) < length xs"
  by (induction xs) (auto simp: less_Suc_eq_le)

text \<open>
  Claim C1, as amended. The stored comparison result is cleared whenever \<open>selectCollege\<close>
  changes the selection and on every call of \<open>removeCollege\<close>; choosing another branch
  in the drop-down leaves the stored result as it was.
\<close>

theorem C1_result_cleared_with_selection:
  "(selectedColleges (fst (selectCollege c s)) \<noteq> selectedColleges s \<longrightarrow>
      comparisonData (fst (selectCollege c s)) = None) \<and>
   comparisonData (fst (removeCollege code s)) = None \<and>
   comparisonData (setSelectedBranch b s) = comparisonData s"
  by (simp add: selectCollege_def removeCollege_def loadBranches_def setSelectedBranch_def Let_def)

theorem C1_witness:
  "selectedColleges (fst (selectCollege (ex_college ''C'') ex_view)) \<noteq> selectedColleges ex_view \<and>
   comparisonData ex_view = Some ex_result \<and>
   comparisonData (fst (selectCollege (ex_college ''C'') ex_view)) = None \<and>
   comparisonData (fst (removeCollege ''A'' ex_view)) = None \<and>
   comparisonData (setSelectedBranch ''CS'' ex_view) = Some ex_result"
  using C1_result_cleared_with_selection [of "ex_college ''C''" ex_view "''A''" "''CS''"]
  by (simp add: selectCollege_def loadBranches_def ex_view_def ex_college_def)

text \<open>
  Claim C1 as stated fails: with a result for branch IT stored, choosing branch CS changes
  the selected branch and keeps the result for IT.
\<close>

theorem C1_branch_change_counterexample:
  "selectedBranch ex_view = ''IT'' \<and>
   selectedBranch (setSelectedBranch ''CS'' ex_view) = ''CS'' \<and>
   comparisonData (setSelectedBranch ''CS'' ex_view) = Some ex_result \<and>
   result_branch ex_result = ''IT''"
  by (simp add: setSelectedBranch_def ex_view_def ex_result_def)

text \<open>
  Claim C7. When fewer than two colleges remain after \<open>removeCollege\<close> (in particular
  when one of exactly two selected colleges is removed), the branch list and the selected
  branch are cleared and no request is issued; when two or more remain, the branches
  request is issued for the remaining codes and the branch state is kept until it replies.
\<close>

theorem C7_remove_clears_or_reloads:
  "(length (filter (\<lambda>x. college_code x \<noteq> code) (selectedColleges s)) < 2 \<longrightarrow>
      branches (fst (removeCollege code s)) = [] \<and>
      selectedBranch (fst (removeCollege code s)) = [] \<and>
      snd (removeCollege code s) = []) \<and>
   (length (selectedColleges s) = 2 \<and> code \<in> set (map college_code (selectedColleges s)) \<longrightarrow>
      branches (fst (removeCollege code s)) = [] \<and>
      selectedBranch (fst (removeCollege code s)) = [] \<and>
      snd (removeCollege code s) = []) \<and>
   (2 \<le> length (filter (\<lambda>x. college_code x \<noteq> code) (selectedColleges s)) \<longrightarrow>
      snd (removeCollege code s) =
        [Fetch (PostBranches
           (map college_code (filter (\<lambda>x. college_code x \<noteq> code) (selectedColleges s))))] \<and>
      branches (fst (removeCollege code s)) = branches s \<and>
      selectedBranch (fst (removeCollege code s)) = selectedBranch s)"
proof -
  have a: "length (filter (\<lambda>x. college_code x \<noteq> code) (selectedColleges s)) < 2 \<longrightarrow>
      branches (fst (removeCollege code s)) = [] \<and>
      selectedBranch (fst (removeCollege code s)) = [] \<and>
      snd (removeCollege code s) = []"
    by (simp add: removeCollege_def Let_def)
  have b: "length (selectedColleges s) = 2 \<and> code \<in> set (map college_code (selectedColleges s)) \<longrightarrow>
      length (filter (\<lambda>x. college_code x \<noteq> code) (selectedColleges s)) < 2"
    using filter_code_shorter [of code "selectedColleges s"] by auto
  have c: "2 \<le> length (filter (\<lambda>x. college_code x \<noteq> code) (selectedColleges s)) \<longrightarrow>
      snd (removeCollege code s) =
        [Fetch (PostBranches
           (map college_code (filter (\<lambda>x. college_code x \<noteq> code) (selectedColleges s))))] \<and>
      branches (fst (removeCollege code s)) = branches s \<and>
      selectedBranch (fst (removeCollege code s)) = selectedBranch s"
    by (simp add: removeCollege_def loadBranches_def Let_def)
  from a b c show ?thesis by blast
qed

theorem C7_witness:
  "length (filter (\<lambda>x. college_code x \<noteq> ''A'') (selectedColleges ex_view)) < 2 \<and>
   length (selectedColleges ex_view) = 2 \<and>
   ''A'' \<in> set (map college_code (selectedColleges ex_view)) \<and>
   selectedBranch ex_view = ''IT'' \<and>
   branches (fst (removeCollege ''A'' ex_view)) = [] \<and>
   selectedBranch (fst (removeCollege ''A'' ex_view)) = [] \<and>
   snd (removeCollege ''A'' ex_view) = [] \<and>
   2 \<le> length (filter (\<lambda>x. college_code x \<noteq> ''A'') (selectedColleges ex_view3)) \<and>
   snd (removeCollege ''A'' ex_view3) = [Fetch (PostBranches [''B'', ''C''])] \<and>
   selectedBranch (fst (removeCollege ''A'' ex_view3)) = ''IT''"
  using C7_remove_clears_or_reloads [of "''A''" ex_view]
    C7_remove_clears_or_reloads [of "''A''" ex_view3]
  by (simp add: ex_view_def ex_view3_def ex_college_def)

lemma str_or_nonempty: "d \<noteq> [] \<Longrightarrow> str_or a d \<noteq> []"
  by (cases a) auto

lemma truthy_str_or: "truthy a \<Longrightarrow> str_or a d \<noteq> []"
  by (cases a) auto

lemma error_reply_clears:
  "is_error_reply r \<Longrightarrow> comparisonData (handleCompare_reply r s) = None"
  by (cases r rule: is_error_reply.cases)
    (auto simp: handleCompare_reply_def compare_catch_def compare_finally_def Let_def)

lemma error_reply_message:
  "is_error_reply r \<Longrightarrow> error (handleCompare_reply r s) \<noteq> []"
  by (cases r rule: is_error_reply.cases)
    (auto simp: handleCompare_reply_def compare_catch_def compare_finally_def Let_def
          truthy_str_or intro!: str_or_nonempty)

text \<open>
  Claim C4, as amended. Every error reply (a rejected request, a body that does not parse,
  a status outside 2xx, or a 2xx body without \<open>success\<close> and \<open>data\<close>) clears the stored
  result and sets a non-empty message. A 2xx body without \<open>success\<close> and \<open>data\<close> shows
  its \<open>error\<close> field when that is non-empty, else the text for an invalid response
  format; a status outside 2xx shows the body's \<open>message\<close> field when that is non-empty,
  else its \<open>error\<close> field when non-empty, else the text with the status code.
\<close>

theorem C4_error_reply_surfaced:
  "(is_error_reply r \<longrightarrow>
      comparisonData (handleCompare_reply r s) = None \<and> error (handleCompare_reply r s) \<noteq> []) \<and>
   (res_ok st \<and> \<not> (success d \<and> data d \<noteq> None) \<longrightarrow>
      error (handleCompare_reply (Reply st (Json d)) s) =
        str_or (body_error d) ''Failed to compare colleges - invalid response format'') \<and>
   (\<not> res_ok st \<longrightarrow>
      error (handleCompare_reply (Reply st (Json d)) s) =
        str_or (body_message d)
          (str_or (body_error d) (''HTTP '' @ show_nat st @ '': Comparison failed'')))"
proof -
  have a: "is_error_reply r \<longrightarrow>
      comparisonData (handleCompare_reply r s) = None \<and> error (handleCompare_reply r s) \<noteq> []"
    using error_reply_clears [of r s] error_reply_message [of r s] by simp
  have b: "res_ok st \<and> \<not> (success d \<and> data d \<noteq> None) \<longrightarrow>
      error (handleCompare_reply (Reply st (Json d)) s) =
        str_or (body_error d) ''Failed to compare colleges - invalid response format''"
    by (cases "body_error d")
      (auto simp: handleCompare_reply_def compare_finally_def)
  have c: "\<not> res_ok st \<longrightarrow>
      error (handleCompare_reply (Reply st (Json d)) s) =
        str_or (body_message d)
          (str_or (body_error d) (''HTTP '' @ show_nat st @ '': Comparison failed''))"
  proof
    assume n: "\<not> res_ok st"
    have ne: "str_or (body_message d)
          (str_or (body_error d) (''HTTP '' @ show_nat st @ '': Comparison failed'')) \<noteq> []"
      by (intro str_or_nonempty) simp
    show "error (handleCompare_reply (Reply st (Json d)) s) =
        str_or (body_message d)
          (str_or (body_error d) (''HTTP '' @ show_nat st @ '': Comparison failed''))"
      using n ne by (simp add: handleCompare_reply_def compare_catch_def compare_finally_def Let_def)
  qed
  from a b c show ?thesis by blast
qed

theorem C4_witness:
  "is_error_reply (Reply 200 (Json ex_body)) \<and> res_ok 200 \<and>
   \<not> (success ex_body \<and> data ex_body \<noteq> None) \<and>
   comparisonData ex_view = Some ex_result \<and>
   comparisonData (handleCompare_reply (Reply 200 (Json ex_body)) ex_view) = None \<and>
   error (handleCompare_reply (Reply 200 (Json ex_body)) ex_view) = ''no data'' \<and>
   \<not> res_ok 404 \<and>
   error (handleCompare_reply (Reply 404 (Json ex_body)) ex_view) = ''no data'' \<and>
   error (handleCompare_reply (Reply 404 (Json empty_body)) ex_view) = ''HTTP 404: Comparison failed''"
  using C4_error_reply_surfaced [of "Reply 200 (Json ex_body)" ex_view 200 ex_body]
    C4_error_reply_surfaced [of "Reply 200 (Json ex_body)" ex_view 404 ex_body]
    C4_error_reply_surfaced [of "Reply 200 (Json ex_body)" ex_view 404 empty_body]
  by (simp add: res_ok_def ex_body_def empty_body_def ex_view_def digit_char_def)

text \<open>
  Claim C4 as stated fails: a reply with status 500 whose body has both a \<open>message\<close> and
  an \<open>error\<close> field shows the \<open>message\<close> field, not the \<open>error\<close> field.
\<close>

theorem C4_message_field_counterexample:
  "is_error_reply (Reply 500 (Json (ex_body\<lparr>body_message := Some ''Internal Server Error''\<rparr>))) \<and>
   body_error (ex_body\<lparr>body_message := Some ''Internal Server Error''\<rparr>) = Some ''no data'' \<and>
   error (handleCompare_reply
            (Reply 500 (Json (ex_body\<lparr>body_message := Some ''Internal Server Error''\<rparr>))) ex_view)
     = ''Internal Server Error''"
  by (simp add: res_ok_def ex_body_def handleCompare_reply_def compare_catch_def
      compare_finally_def)

section \<open>The chart and the statistics\<close>

lemma fold_jmin_NaN: "fold jmin vs NaN = NaN"
  by (induction vs) auto

lemma fold_jmax_NaN: "fold jmax vs NaN = NaN"
  by (induction vs) auto

lemma fold_jmin_le: "fold jmin vs (Fin a) = Fin lo \<Longrightarrow> lo \<le> a"
proof (induction vs arbitrary: a)
  case Nil
  then show ?case by simp
next
  case (Cons x xs)
  show ?case
  proof (cases x)
    case NaN
    with Cons.prems show ?thesis by (simp add: fold_jmin_NaN)
  next
    case (Fin b)
    with Cons.prems have "fold jmin xs (Fin (min b a)) = Fin lo" by simp
    then have "lo \<le> min b a" by (rule Cons.IH)
    then show ?thesis by simp
  qed
qed

lemma fold_jmax_ge: "fold jmax vs (Fin a) = Fin hi \<Longrightarrow> a \<le> hi"
proof (induction vs arbitrary: a)
  case Nil
  then show ?case by simp
next
  case (Cons x xs)
  show ?case
  proof (cases x)
    case NaN
    with Cons.prems show ?thesis by (simp add: fold_jmax_NaN)
  next
    case (Fin b)
    with Cons.prems have "fold jmax xs (Fin (max b a)) = Fin hi" by simp
    then have "max b a \<le> hi" by (rule Cons.IH)
    then show ?thesis by simp
  qed
qed

lemma page_range_ge1: "page_range N cs = Some r \<Longrightarrow> 1 \<le> r"
proof -
  assume a: "page_range N cs = Some r"
  then obtain v vs where vs: "map (toNumber N) (page_allValues cs) = v # vs"
    by (auto simp: page_range_def split: list.splits)
  show ?thesis
  proof (cases "fold jmin vs v")
    case NaN
    with a vs show ?thesis by (simp add: page_range_def)
  next
    case lo: (Fin lo)
    show ?thesis
    proof (cases "fold jmax vs v")
      case NaN
      with a vs lo show ?thesis by (simp add: page_range_def)
    next
      case hi: (Fin hi)
      obtain a0 where v: "v = Fin a0"
        using lo by (cases v) (auto simp: fold_jmin_NaN)
      have "lo \<le> a0" "a0 \<le> hi"
        using lo hi v fold_jmin_le fold_jmax_ge by auto
      then have "lo \<le> hi" by simp
      then have "\<lfloor>lo\<rfloor> \<le> \<lceil>hi\<rceil>"
        by (meson floor_mono floor_le_ceiling order_trans)
      then have "\<lceil>hi + 2\<rceil> - \<lfloor>lo - 2\<rfloor> \<ge> 4" by simp
      with a vs lo hi show ?thesis
        by (auto simp: page_range_def Let_def split: if_splits)
    qed
  qed
qed

lemma chart_range:
  "ComparisonGraph N d = Chart ch \<Longrightarrow>
   c_range ch = max (c_maxVal ch - c_minVal ch) 1"
  by (auto simp: ComparisonGraph_def Let_def split: option.splits list.splits if_splits)

text \<open>
  Claim C5. Whenever the chart is drawn, the scaling range is at least 1, so the division
  by it in the normalisation is never a division by zero; when the minimum and the maximum
  of the valid values are equal, the range is exactly 1. The chart inside the page has a
  range of at least 1 as well.
\<close>

theorem C5_range_at_least_one:
  "(ComparisonGraph N d = Chart ch \<longrightarrow>
      1 \<le> c_range ch \<and> c_range ch \<noteq> 0 \<and> (c_minVal ch = c_maxVal ch \<longrightarrow> c_range ch = 1)) \<and>
   (page_range N cs = Some r \<longrightarrow> 1 \<le> r \<and> r \<noteq> 0)"
proof -
  have "ComparisonGraph N d = Chart ch \<longrightarrow>
      1 \<le> c_range ch \<and> c_range ch \<noteq> 0 \<and> (c_minVal ch = c_maxVal ch \<longrightarrow> c_range ch = 1)"
    using chart_range [of N d ch] by auto
  moreover have "page_range N cs = Some r \<longrightarrow> 1 \<le> r \<and> r \<noteq> 0"
    using page_range_ge1 [of N cs r] by auto
  ultimately show ?thesis by simp
qed

lemmas chart_consts = graphHeight_def graphWidth_def padding_left_def padding_right_def
  padding_top_def padding_bottom_def chartWidth_def chartHeight_def

lemma ex_flat_renders: "ComparisonGraph no_strings (Some ex_flat) = Chart ex_flat_chart"
  by (simp add: ComparisonGraph_def ex_flat_def ex_flat_entries_def ex_flat_chart_def
      uniqueYears_def allYears_def allValues_def trend_or_empty_def
      checked_def present_number_def isNaN_def college_series_def validPoints_def
      valid_pair_def mk_point_def chart_consts Let_def enumerate_eq_zip upt_rec)

lemma ex_trends_renders: "ComparisonGraph no_strings (Some ex_trends) = Chart ex_trends_chart"
  by (simp add: ComparisonGraph_def ex_trends_def ex_trends_chart_def
      uniqueYears_def allYears_def allValues_def trend_or_empty_def
      checked_def present_number_def isNaN_def college_series_def validPoints_def
      valid_pair_def mk_point_def chart_consts Let_def enumerate_eq_zip upt_rec)

theorem C5_witness:
  "ComparisonGraph no_strings (Some ex_flat) = Chart ex_flat_chart \<and>
   c_minVal ex_flat_chart = c_maxVal ex_flat_chart \<and> c_range ex_flat_chart = 1 \<and>
   page_range no_strings ex_flat_entries = Some 4 \<and> (1::real) \<le> 4"
  using C5_range_at_least_one [of no_strings "Some ex_flat" ex_flat_chart ex_flat_entries 4]
    ex_flat_renders
  by (simp add: ex_flat_chart_def page_range_def page_allValues_def ex_flat_entries_def
      trend_or_empty_def)

lemma map_filter_set:
  "set (List.map_filter f xs) = {y. \<exists>x \<in> set xs. f x = Some y}"
  by (induction xs) (auto simp: split: option.splits)

lemma valid_pair_checked:
  "valid_pair N t = Some (y, v) \<Longrightarrow> checked N (val t) = Some v"
  by (auto simp: valid_pair_def checked_def split: if_splits jsnum.splits)

lemma validPoints_value:
  assumes "(y, v) \<in> set (validPoints N c)" and "c \<in> set cs"
  shows "v \<in> set (allValues N cs)"
proof -
  from assms(1) obtain t where t: "t \<in> set (trend_or_empty c)" "valid_pair N t = Some (y, v)"
    by (auto simp: validPoints_def map_filter_set)
  then have "checked N (val t) = Some v" by (simp add: valid_pair_checked)
  with t(1) have "v \<in> set (List.map_filter (\<lambda>t. checked N (val t)) (trend_or_empty c))"
    by (auto simp: map_filter_set)
  with assms(2) show ?thesis by (auto simp: allValues_def)
qed

lemma series_point:
  assumes "college_series N years mn rg c = Some ps" and "p \<in> set ps"
  shows "\<exists>i y v. (y, v) \<in> set (validPoints N c) \<and>
           p = mk_point years (length (validPoints N c)) mn rg (i, y, v)"
proof -
  from assms have "p \<in> mk_point years (length (validPoints N c)) mn rg `
      set (enumerate 0 (validPoints N c))"
    by (auto simp: college_series_def Let_def split: if_splits)
  then obtain i y v where iv: "(i, y, v) \<in> set (enumerate 0 (validPoints N c))"
      and p: "p = mk_point years (length (validPoints N c)) mn rg (i, y, v)"
    by auto
  from iv have "(y, v) \<in> set (validPoints N c)"
    by (auto simp: in_set_enumerate_eq) (metis nth_mem)
  with p show ?thesis by blast
qed

lemma fold_min_bounds:
  fixes v :: real
  assumes "x \<in> set (v # vs)"
  shows "fold min vs v \<le> x" and "x \<le> fold max vs v"
proof -
  have "fold min vs v = Min (set (v # vs))" by (rule Min.set_eq_fold [symmetric])
  then show "fold min vs v \<le> x" using assms by (metis List.finite_set Min_le)
  have "fold max vs v = Max (set (v # vs))" by (rule Max.set_eq_fold [symmetric])
  then show "x \<le> fold max vs v" using assms by (metis List.finite_set Max_ge)
qed

lemma mk_point_y_bounds:
  assumes "mn \<le> v" and "v \<le> mx"
  shows "padding_top \<le> py (mk_point years n mn (max (mx - mn) 1) (i, y, v))"
    and "py (mk_point years n mn (max (mx - mn) 1) (i, y, v)) \<le> padding_top + chartHeight"
proof -
  let ?rg = "max (mx - mn) 1"
  have rg: "0 < ?rg" "v - mn \<le> ?rg" using assms by auto
  have f0: "0 \<le> (v - mn) / ?rg" using assms rg by simp
  have f1: "(v - mn) / ?rg \<le> 1" using rg by (simp add: divide_le_eq_1)
  have h: "(0::real) \<le> chartHeight" by (simp add: chart_consts)
  have "(v - mn) / ?rg * chartHeight \<le> 1 * chartHeight"
    using f1 h by (rule mult_right_mono)
  moreover have "0 \<le> (v - mn) / ?rg * chartHeight"
    using f0 h by (rule mult_nonneg_nonneg)
  ultimately show "padding_top \<le> py (mk_point years n mn ?rg (i, y, v))"
    and "py (mk_point years n mn ?rg (i, y, v)) \<le> padding_top + chartHeight"
    by (simp_all add: mk_point_def Let_def split: option.splits)
qed

text \<open>
  Claim C9. Every point that \<open>ComparisonGraph.jsx\<close> plots has its vertical coordinate
  inside the chart area, between \<open>padding.top\<close> and \<open>padding.top + chartHeight\<close>.
\<close>

theorem C9_points_inside_chart_area:
  assumes "ComparisonGraph N d = Chart ch"
    and "Some ps \<in> set (c_series ch)"
    and "p \<in> set ps"
  shows "padding_top \<le> py p \<and> py p \<le> padding_top + chartHeight"
proof -
  from assms(1) obtain r cs v vs where
      d: "d = Some r" "comparison r = Some cs" and av: "allValues N cs = v # vs"
      and ch: "ch = \<lparr>c_minVal = fold min vs v, c_maxVal = fold max vs v,
                     c_range = max (fold max vs v - fold min vs v) 1,
                     c_uniqueYears = uniqueYears N cs,
                     c_series = map (college_series N (uniqueYears N cs) (fold min vs v)
                                  (max (fold max vs v - fold min vs v) 1)) cs\<rparr>"
    by (auto simp: ComparisonGraph_def Let_def split: option.splits list.splits if_splits)
  let ?mn = "fold min vs v" and ?mx = "fold max vs v"
  from assms(2) ch obtain c where c: "c \<in> set cs"
      and ps: "college_series N (uniqueYears N cs) ?mn (max (?mx - ?mn) 1) c = Some ps"
    by auto
  from series_point [OF ps assms(3)] obtain i y w where
      yw: "(y, w) \<in> set (validPoints N c)"
      and p: "p = mk_point (uniqueYears N cs) (length (validPoints N c)) ?mn
                    (max (?mx - ?mn) 1) (i, y, w)"
    by blast
  have "w \<in> set (v # vs)" using validPoints_value [OF yw c] av by simp
  then have "?mn \<le> w" "w \<le> ?mx" by (rule fold_min_bounds)+
  then show ?thesis unfolding p by (intro conjI mk_point_y_bounds)
qed

theorem C9_witness:
  "ComparisonGraph no_strings (Some ex_trends) = Chart ex_trends_chart \<and>
   Some [\<lparr>px = 60, py = 20, pvalue = 96, pyear = 2021, isValid = True\<rparr>,
         \<lparr>px = 365, py = 116, pvalue = 94, pyear = 2022, isValid = True\<rparr>]
     \<in> set (c_series ex_trends_chart) \<and>
   padding_top = 20 \<and> padding_top + chartHeight = 260 \<and>
   padding_top \<le> py \<lparr>px = 365, py = 116, pvalue = 94, pyear = 2022, isValid = True\<rparr> \<and>
   py \<lparr>px = 365, py = 116, pvalue = 94, pyear = 2022, isValid = True\<rparr> \<le> padding_top + chartHeight"
proof -
  have a: "ComparisonGraph no_strings (Some ex_trends) = Chart ex_trends_chart"
    by (rule ex_trends_renders)
  have b: "Some [\<lparr>px = 60, py = 20, pvalue = 96, pyear = 2021, isValid = True\<rparr>,
         \<lparr>px = 365, py = 116, pvalue = 94, pyear = 2022, isValid = True\<rparr>]
     \<in> set (c_series ex_trends_chart)"
    by (simp add: ex_trends_chart_def)
  have c: "\<lparr>px = 365, py = 116, pvalue = 94, pyear = 2022, isValid = True\<rparr>
     \<in> set [\<lparr>px = 60, py = 20, pvalue = 96, pyear = 2021, isValid = True\<rparr>,
         \<lparr>px = 365, py = 116, pvalue = 94, pyear = 2022, isValid = True\<rparr>]"
    by simp
  from C9_points_inside_chart_area [OF a b c] a b show ?thesis
    by (simp add: chart_consts)
qed

section \<open>Rounding and the error of the mean\<close>

lemma rne_int: "rne (real_of_int n) = n"
  by (simp add: rne_def)

lemma rne_close: "\<bar>real_of_int (rne m) - m\<bar> \<le> 1 / 2"
proof -
  have "real_of_int \<lfloor>m\<rfloor> \<le> m" "m < real_of_int \<lfloor>m\<rfloor> + 1" by linarith+
  then show ?thesis by (auto simp: rne_def Let_def)
qed

lemma round53_close: "\<bar>round53 x - x\<bar> \<le> \<bar>x\<bar> / 2 ^ 53"
proof (cases "x = 0")
  case True
  then show ?thesis by (simp add: round53_def)
next
  case False
  define e where "e = \<lfloor>log 2 \<bar>x\<bar>\<rfloor>"
  define p where "p = 2 powr real_of_int (e - 52)"
  have p: "0 < p" by (simp add: p_def)
  have "2 powr real_of_int e \<le> \<bar>x\<bar>"
    using False floor_log_eq_powr_iff [of "\<bar>x\<bar>" 2 e] by (simp add: e_def)
  moreover have "2 powr real_of_int e = p * 2 ^ 52"
    by (simp add: p_def powr_diff powr_realpow [symmetric])
  ultimately have lo: "p * 2 ^ 52 \<le> \<bar>x\<bar>" by simp
  have r: "round53 x = real_of_int (rne (x / p)) * p"
    using False by (simp add: round53_def Let_def e_def p_def)
  have "round53 x - x = (real_of_int (rne (x / p)) - x / p) * p"
    using p by (simp add: r algebra_simps)
  then have "\<bar>round53 x - x\<bar> = \<bar>real_of_int (rne (x / p)) - x / p\<bar> * p"
    using p by (simp add: abs_mult)
  also have "\<dots> \<le> 1 / 2 * p"
    using rne_close [of "x / p"] p by (intro mult_right_mono) auto
  also have "\<dots> = (p * 2 ^ 52) / 2 ^ 53" by simp
  also have "\<dots> \<le> \<bar>x\<bar> / 2 ^ 53" using lo by (intro divide_right_mono) auto
  finally show ?thesis .
qed

lemma round53_binade:
  fixes k j :: nat
  assumes "2 ^ k \<le> \<bar>x\<bar>" and "\<bar>x\<bar> < 2 ^ (k + 1)" and "k + j = 52"
  shows "round53 x = real_of_int (rne (x * 2 ^ j)) / 2 ^ j"
proof -
  have "(0::real) < 2 ^ k" by simp
  with assms(1) have "0 < \<bar>x\<bar>" by linarith
  then have x: "x \<noteq> 0" by simp
  have "\<lfloor>log 2 \<bar>x\<bar>\<rfloor> = int k"
    using assms(1,2) \<open>0 < \<bar>x\<bar>\<close> floor_log_eq_powr_iff [of "\<bar>x\<bar>" 2 "int k"]
    by (simp add: powr_realpow powr_add)
  moreover have "int k - 52 = - int j" using assms(3) by simp
  ultimately have q: "\<lfloor>log 2 \<bar>x\<bar>\<rfloor> - 52 = - int j" by simp
  have "2 powr real_of_int (- int j) = 1 / 2 ^ j"
    by (simp add: powr_minus powr_realpow divide_simps)
  with x q show ?thesis by (simp add: round53_def Let_def)
qed

lemma round2_close: "\<bar>round2 y - y\<bar> \<le> 1 / 200"
proof -
  define z where "z = \<bar>y\<bar> * 100"
  define n where "n = \<lfloor>z + 1 / 2\<rfloor>"
  have n: "\<bar>real_of_int n - z\<bar> \<le> 1 / 2" unfolding n_def by linarith
  show ?thesis
  proof (cases "0 \<le> y")
    case True
    then have "round2 y - y = (real_of_int n - z) / 100"
      by (cases "y = 0") (simp_all add: round2_def n_def z_def sgn_real_def)
    then have "\<bar>round2 y - y\<bar> = \<bar>(real_of_int n - z) / 100\<bar>"
      by (simp only: abs_minus_cancel minus_divide_left [symmetric])
    also have "\<dots> = \<bar>real_of_int n - z\<bar> / 100" by simp
    also have "\<dots> \<le> (1 / 2) / 100" using n by (intro divide_right_mono) auto
    finally show ?thesis by simp
  next
    case False
    then have "round2 y - y = - (real_of_int n - z) / 100"
      by (simp add: round2_def n_def z_def sgn_real_def)
    then have "\<bar>round2 y - y\<bar> = \<bar>(real_of_int n - z) / 100\<bar>"
      by (simp only: abs_minus_cancel minus_divide_left [symmetric])
    also have "\<dots> = \<bar>real_of_int n - z\<bar> / 100" by simp
    also have "\<dots> \<le> (1 / 2) / 100" using n by (intro divide_right_mono) auto
    finally show ?thesis by simp
  qed
qed

lemma rounding_unit_nonneg:
  assumes "\<And>x. \<bar>rd x - x\<bar> \<le> u * \<bar>x\<bar>"
  shows "(0::real) \<le> u"
proof -
  have "0 \<le> \<bar>rd 1 - 1\<bar>" by simp
  also have "\<dots> \<le> u * \<bar>1\<bar>" by (rule assms)
  finally show ?thesis by simp
qed

lemma double_sum_close:
  assumes H: "\<And>x. \<bar>rd x - x\<bar> \<le> u * \<bar>x\<bar>"
  shows "\<bar>double_sum rd a xs - (a + sum_list xs)\<bar>
         \<le> ((1 + u) ^ length xs - 1) * (\<bar>a\<bar> + sum_list (map abs xs))"
proof (induction xs arbitrary: a)
  case Nil
  then show ?case by simp
next
  case (Cons x xs)
  have u: "0 \<le> u" using H by (rule rounding_unit_nonneg)
  define a' where "a' = rd (a + x)"
  define P where "P = (1 + u) ^ length xs"
  define B where "B = sum_list (map abs xs)"
  define T where "T = \<bar>a\<bar> + \<bar>x\<bar> + B"
  have B: "0 \<le> B" unfolding B_def by (induction xs) auto
  have P: "1 \<le> P" unfolding P_def using u by (intro one_le_power) simp
  have T: "0 \<le> T" unfolding T_def using B by simp
  have d0: "\<bar>a' - (a + x)\<bar> \<le> u * \<bar>a + x\<bar>" unfolding a'_def by (rule H)
  have "u * \<bar>a + x\<bar> \<le> u * (\<bar>a\<bar> + \<bar>x\<bar>)"
    using u by (intro mult_left_mono) auto
  with d0 have d: "\<bar>a' - (a + x)\<bar> \<le> u * (\<bar>a\<bar> + \<bar>x\<bar>)" by linarith
  have "u * (\<bar>a\<bar> + \<bar>x\<bar>) \<le> u * T"
    unfolding T_def using u B by (intro mult_left_mono) auto
  with d have dT: "\<bar>a' - (a + x)\<bar> \<le> u * T" by linarith
  have "\<bar>a'\<bar> \<le> \<bar>a + x\<bar> + \<bar>a' - (a + x)\<bar>" by linarith
  with d have "\<bar>a'\<bar> \<le> (\<bar>a\<bar> + \<bar>x\<bar>) + u * (\<bar>a\<bar> + \<bar>x\<bar>)" by linarith
  moreover have "0 \<le> u * B" using u B by simp
  ultimately have "\<bar>a'\<bar> + B \<le> (\<bar>a\<bar> + \<bar>x\<bar>) + u * (\<bar>a\<bar> + \<bar>x\<bar>) + B + u * B" by linarith
  also have "\<dots> = (1 + u) * T" by (simp add: T_def algebra_simps)
  finally have T': "\<bar>a'\<bar> + B \<le> (1 + u) * T" .
  have "\<bar>double_sum rd a' xs - (a' + sum_list xs)\<bar> \<le> (P - 1) * (\<bar>a'\<bar> + B)"
    unfolding P_def B_def by (rule Cons.IH)
  also have "\<dots> \<le> (P - 1) * ((1 + u) * T)"
    using T' P by (intro mult_left_mono) auto
  finally have ih: "\<bar>double_sum rd a' xs - (a' + sum_list xs)\<bar> \<le> (P - 1) * ((1 + u) * T)" .
  have "\<bar>double_sum rd a' xs - (a + x + sum_list xs)\<bar>
        \<le> \<bar>double_sum rd a' xs - (a' + sum_list xs)\<bar> + \<bar>a' - (a + x)\<bar>"
    by linarith
  with ih dT have "\<bar>double_sum rd a' xs - (a + x + sum_list xs)\<bar>
        \<le> (P - 1) * ((1 + u) * T) + u * T"
    by linarith
  also have "\<dots> = ((1 + u) * P - 1) * T" by (simp add: algebra_simps)
  finally show ?case
    by (simp add: a'_def P_def T_def B_def add.assoc)
qed

lemma sum_list_abs_le: "\<bar>sum_list xs\<bar> \<le> sum_list (map abs (xs :: real list))"
  by (induction xs) auto

lemma double_mean_close:
  assumes H: "\<And>x. \<bar>rd x - x\<bar> \<le> u * \<bar>x\<bar>" and ne: "xs \<noteq> []"
  shows "\<bar>double_mean rd xs - sum_list xs / real (length xs)\<bar>
         \<le> ((1 + u) ^ (length xs + 1) - 1) * mean_abs xs"
proof -
  have u: "0 \<le> u" using H by (rule rounding_unit_nonneg)
  define n where "n = real (length xs)"
  define P where "P = (1 + u) ^ length xs"
  define A where "A = sum_list (map abs xs)"
  define S where "S = sum_list xs"
  define S' where "S' = double_sum rd 0 xs"
  have n: "0 < n" unfolding n_def using ne by simp
  have P: "1 \<le> P" unfolding P_def using u by (intro one_le_power) simp
  have A: "0 \<le> A" unfolding A_def by (induction xs) auto
  have "\<bar>S' - (0 + S)\<bar> \<le> (P - 1) * (\<bar>0\<bar> + A)"
    unfolding S'_def S_def P_def A_def using H by (rule double_sum_close)
  then have s: "\<bar>S' - S\<bar> \<le> (P - 1) * A" by simp
  have "\<bar>S\<bar> \<le> A" unfolding S_def A_def by (rule sum_list_abs_le)
  with s have "\<bar>S'\<bar> \<le> A + (P - 1) * A" by linarith
  also have "\<dots> = P * A" by (simp add: algebra_simps)
  finally have s': "\<bar>S'\<bar> \<le> P * A" .
  have "\<bar>rd (S' / n) - S' / n\<bar> \<le> u * \<bar>S' / n\<bar>" by (rule H)
  also have "\<dots> = u * (\<bar>S'\<bar> / n)" using n by simp
  also have "\<dots> \<le> u * (P * A / n)"
    using s' u n by (intro mult_left_mono divide_right_mono) auto
  finally have q: "\<bar>rd (S' / n) - S' / n\<bar> \<le> u * (P * A / n)" .
  have "\<bar>S' / n - S / n\<bar> = \<bar>S' - S\<bar> / n"
    using n by (simp add: diff_divide_distrib [symmetric])
  also have "\<dots> \<le> (P - 1) * A / n"
    using s n by (intro divide_right_mono) auto
  finally have r: "\<bar>S' / n - S / n\<bar> \<le> (P - 1) * A / n" .
  have "\<bar>rd (S' / n) - S / n\<bar> \<le> \<bar>rd (S' / n) - S' / n\<bar> + \<bar>S' / n - S / n\<bar>" by linarith
  with q r have "\<bar>rd (S' / n) - S / n\<bar> \<le> u * (P * A / n) + (P - 1) * A / n" by linarith
  also have "\<dots> = ((1 + u) * P - 1) * (A / n)" using n by (simp add: field_simps)
  finally show ?thesis
    by (simp add: double_mean_def mean_abs_def S'_def S_def n_def P_def A_def)
qed

section \<open>The statistics panel\<close>

lemma numbers_of_number_values:
  "number_values ts \<Longrightarrow>
   foldl (js_plus rd) (ANum (Fin a)) (map val ts) = ANum (Fin (double_sum rd a (numbers N ts))) \<and>
   length (numbers N ts) = length ts"
proof (induction ts arbitrary: a)
  case Nil
  then show ?case by (simp add: numbers_def)
next
  case (Cons t ts)
  from Cons.prems obtain r where r: "val t = JNum r" and rest: "number_values ts"
    by (auto simp: number_values_def split: jsval.splits)
  have "checked N (val t) = Some r"
    by (simp add: r checked_def present_number_def isNaN_def)
  then have n: "numbers N (t # ts) = r # numbers N ts" by (simp add: numbers_def)
  from Cons.IH [OF rest, of "rd (a + r)"] r n show ?case by simp
qed

lemma average_of_numbers:
  assumes "trend c = Some ts" and "ts \<noteq> []" and "number_values ts"
  shows "average_display rd c = Decimals (Fin (round2 (double_mean rd (numbers N ts))))"
  using assms numbers_of_number_values [OF assms(3), of rd 0 N]
  by (simp add: average_display_def double_mean_def)

lemma mean_valid_numbers:
  assumes "trend c = Some ts" and "number_values ts"
  shows "mean_valid N c = sum_list (numbers N ts) / real (length (numbers N ts))"
  using assms by (simp add: mean_valid_def trend_or_empty_def numbers_def Let_def)

text \<open>
  Claim C8, as amended. A series that is absent or has no elements shows the placeholder.
  For a series with at least one element whose values are all numbers, the Average cell
  shows, with two decimals, the mean as doubles compute it: the sum of all values, added
  from the left, divided by their number. Where every rounding to a double has a relative
  error of at most \<open>u\<close> (for doubles \<open>u\<close> is \<open>1 / 2 ^ 53\<close>, as long as the exponent stays
  in range), the number shown differs from the arithmetic mean of the series by at most
  1/200 and the error the roundings can add up to.
\<close>

theorem C8_average_of_number_series:
  "(trend c = None \<or> trend c = Some [] \<longrightarrow> average_display rd c = NotAvailable) \<and>
   (trend c = Some ts \<and> ts \<noteq> [] \<and> number_values ts \<longrightarrow>
      average_display rd c = Decimals (Fin (round2 (double_mean rd (numbers N ts))))) \<and>
   ((\<forall>x. \<bar>rd x - x\<bar> \<le> u * \<bar>x\<bar>) \<and> trend c = Some ts \<and> ts \<noteq> [] \<and> number_values ts \<longrightarrow>
      \<bar>round2 (double_mean rd (numbers N ts)) - mean_valid N c\<bar>
        \<le> 1 / 200 + ((1 + u) ^ (length ts + 1) - 1) * mean_abs (numbers N ts))"
proof -
  have a: "trend c = None \<or> trend c = Some [] \<longrightarrow> average_display rd c = NotAvailable"
    by (auto simp: average_display_def)
  have b: "trend c = Some ts \<and> ts \<noteq> [] \<and> number_values ts \<longrightarrow>
      average_display rd c = Decimals (Fin (round2 (double_mean rd (numbers N ts))))"
    using average_of_numbers [of c ts rd N] by blast
  have c: "(\<forall>x. \<bar>rd x - x\<bar> \<le> u * \<bar>x\<bar>) \<and> trend c = Some ts \<and> ts \<noteq> [] \<and> number_values ts \<longrightarrow>
      \<bar>round2 (double_mean rd (numbers N ts)) - mean_valid N c\<bar>
        \<le> 1 / 200 + ((1 + u) ^ (length ts + 1) - 1) * mean_abs (numbers N ts)"
  proof
    assume h: "(\<forall>x. \<bar>rd x - x\<bar> \<le> u * \<bar>x\<bar>) \<and> trend c = Some ts \<and> ts \<noteq> [] \<and> number_values ts"
    then have H: "\<And>x. \<bar>rd x - x\<bar> \<le> u * \<bar>x\<bar>" by blast
    from h have len: "length (numbers N ts) = length ts"
      using numbers_of_number_values [of ts rd 0 N] by blast
    with h have ne: "numbers N ts \<noteq> []" by auto
    have m: "mean_valid N c = sum_list (numbers N ts) / real (length (numbers N ts))"
      using h by (intro mean_valid_numbers) auto
    have "\<bar>double_mean rd (numbers N ts) - mean_valid N c\<bar>
          \<le> ((1 + u) ^ (length ts + 1) - 1) * mean_abs (numbers N ts)"
      using double_mean_close [OF H ne] by (simp add: m len)
    moreover have "\<bar>round2 (double_mean rd (numbers N ts)) - double_mean rd (numbers N ts)\<bar>
          \<le> 1 / 200"
      by (rule round2_close)
    ultimately show "\<bar>round2 (double_mean rd (numbers N ts)) - mean_valid N c\<bar>
        \<le> 1 / 200 + ((1 + u) ^ (length ts + 1) - 1) * mean_abs (numbers N ts)"
      by linarith
  qed
  from a b c show ?thesis by blast
qed

text \<open>
  The series 90, 90.01 with 90.01 as the double it parses to: the doubles give a mean
  just below 90.005, and the cell shows 90.00.
\<close>

lemma round53_unit: "\<bar>round53 x - x\<bar> \<le> (1 / 2 ^ 53) * \<bar>x\<bar>"
  using round53_close [of x] by simp

lemma round53_90: "round53 90 = 90"
  using round53_binade [of 6 90 46] by (simp add: rne_def)

lemma round53_45: "round53 45 = 45"
  using round53_binade [of 5 45 47] by (simp add: rne_def)

lemma round53_sum_cents:
  "round53 (12667077639421297 / 70368744177664) = 791692352463831 / 4398046511104"
  using round53_binade [of 7 "12667077639421297 / 70368744177664" 45]
  by (simp add: rne_def)

lemma round53_half_cents:
  "round53 (791692352463831 / 8796093022208) = 791692352463831 / 8796093022208"
  using round53_binade [of 6 "791692352463831 / 8796093022208" 46]
  by (simp add: rne_def)

lemma ex_cents_shown: "average_display round53 ex_cents = Decimals (Fin 90)"
  by (simp add: average_display_def ex_cents_def ex_cents_points_def round53_90
      round53_sum_cents round53_half_cents round2_def)

lemma ex_gap_shown: "average_display round53 ex_gap = Decimals (Fin 45)"
  by (simp add: average_display_def ex_gap_def round53_90 round53_45 round2_def)

theorem C8_witness:
  "(\<forall>x. \<bar>round53 x - x\<bar> \<le> (1 / 2 ^ 53) * \<bar>x\<bar>) \<and>
   trend ex_cents = Some ex_cents_points \<and> ex_cents_points \<noteq> [] \<and>
   number_values ex_cents_points \<and>
   average_display round53 ex_cents = Decimals (Fin 90) \<and>
   mean_valid no_strings ex_cents = 12667077639421297 / 140737488355328 \<and>
   \<bar>90 - mean_valid no_strings ex_cents\<bar>
     \<le> 1 / 200 + ((1 + 1 / 2 ^ 53) ^ (length ex_cents_points + 1) - 1)
                   * mean_abs (numbers no_strings ex_cents_points) \<and>
   1 / 200 < \<bar>90 - mean_valid no_strings ex_cents\<bar> \<and>
   trend (ex_cents\<lparr>trend := Some []\<rparr>) = Some [] \<and>
   average_display round53 (ex_cents\<lparr>trend := Some []\<rparr>) = NotAvailable \<and>
   average_display round53 (ex_cents\<lparr>trend := None\<rparr>) = NotAvailable"
proof -
  have h1: "\<forall>x. \<bar>round53 x - x\<bar> \<le> (1 / 2 ^ 53) * \<bar>x\<bar>"
    using round53_unit by blast
  have h2: "trend ex_cents = Some ex_cents_points" by (simp add: ex_cents_def)
  have h3: "ex_cents_points \<noteq> []" by (simp add: ex_cents_points_def)
  have h4: "number_values ex_cents_points"
    by (simp add: ex_cents_points_def number_values_def)
  note t = C8_average_of_number_series
    [of ex_cents round53 ex_cents_points no_strings "1 / 2 ^ 53"]
  from t h2 h3 h4 have
    e: "average_display round53 ex_cents =
        Decimals (Fin (round2 (double_mean round53 (numbers no_strings ex_cents_points))))"
    by blast
  with ex_cents_shown have
    r: "round2 (double_mean round53 (numbers no_strings ex_cents_points)) = 90"
    by simp
  from t h1 h2 h3 h4 have
    "\<bar>round2 (double_mean round53 (numbers no_strings ex_cents_points))
       - mean_valid no_strings ex_cents\<bar>
     \<le> 1 / 200 + ((1 + 1 / 2 ^ 53) ^ (length ex_cents_points + 1) - 1)
                   * mean_abs (numbers no_strings ex_cents_points)"
    by blast
  then have b: "\<bar>90 - mean_valid no_strings ex_cents\<bar>
     \<le> 1 / 200 + ((1 + 1 / 2 ^ 53) ^ (length ex_cents_points + 1) - 1)
                   * mean_abs (numbers no_strings ex_cents_points)"
    by (simp only: r)
  have m: "mean_valid no_strings ex_cents = 12667077639421297 / 140737488355328"
    by (simp add: mean_valid_def ex_cents_def ex_cents_points_def trend_or_empty_def
        checked_def present_number_def isNaN_def)
  have g: "1 / 200 < \<bar>90 - mean_valid no_strings ex_cents\<bar>" by (simp add: m)
  have n1: "trend (ex_cents\<lparr>trend := Some []\<rparr>) = Some []" by simp
  have n2: "average_display round53 (ex_cents\<lparr>trend := Some []\<rparr>) = NotAvailable"
    using C8_average_of_number_series [of "ex_cents\<lparr>trend := Some []\<rparr>" round53] by simp
  have n3: "average_display round53 (ex_cents\<lparr>trend := None\<rparr>) = NotAvailable"
    using C8_average_of_number_series [of "ex_cents\<lparr>trend := None\<rparr>" round53] by simp
  from h1 h2 h3 h4 ex_cents_shown m b g n1 n2 n3 show ?thesis by blast
qed

text \<open>
  Claim C8 as stated fails: for the series 90, null the only valid value is 90, so the mean
  of the valid values is 90, and the Average cell shows 45.00.
\<close>

theorem C8_null_value_counterexample:
  "mean_valid no_strings ex_gap = 90 \<and> average_display round53 ex_gap = Decimals (Fin 45)"
  using ex_gap_shown
  by (simp add: ex_gap_def mean_valid_def trend_or_empty_def
      checked_def present_number_def isNaN_def)

section \<open>Excluded trend points\<close>

lemma excluded_iff: "present_number N v = (\<not> excluded_value N v)"
  by (cases v) (auto simp: present_number_def isNaN_def)

lemma checked_excluded: "excluded_value N v \<Longrightarrow> checked N v = None"
  by (simp add: checked_def excluded_iff)

lemma valid_pair_excluded: "excluded_value N (val t) \<Longrightarrow> valid_pair N t = None"
  by (simp add: valid_pair_def excluded_iff)

lemma map_filter_filter:
  "(\<And>x. \<not> P x \<Longrightarrow> f x = None) \<Longrightarrow> List.map_filter f (filter P xs) = List.map_filter f xs"
  by (induction xs) (auto split: option.splits)

lemma trend_drop_excluded:
  "trend_or_empty (drop_excluded N c) =
   filter (\<lambda>t. \<not> excluded_value N (val t)) (trend_or_empty c)"
  by (cases "trend c") (auto simp: trend_or_empty_def drop_excluded_def)

lemma values_drop_excluded:
  "List.map_filter (\<lambda>t. checked N (val t)) (trend_or_empty (drop_excluded N c)) =
   List.map_filter (\<lambda>t. checked N (val t)) (trend_or_empty c)"
  unfolding trend_drop_excluded by (rule map_filter_filter) (simp add: checked_excluded)

lemma allValues_drop_excluded: "allValues N (map (drop_excluded N) cs) = allValues N cs"
  by (simp add: allValues_def values_drop_excluded comp_def)

lemma validPoints_drop_excluded: "validPoints N (drop_excluded N c) = validPoints N c"
proof -
  have "List.map_filter (valid_pair N) (trend_or_empty (drop_excluded N c)) =
        List.map_filter (valid_pair N) (trend_or_empty c)"
    unfolding trend_drop_excluded by (rule map_filter_filter) (simp add: valid_pair_excluded)
  then show ?thesis by (simp add: validPoints_def)
qed

lemma series_drop_excluded:
  "college_series N years mn rg (drop_excluded N c) = college_series N years mn rg c"
  by (simp add: college_series_def validPoints_drop_excluded)

lemma plotted_mk_point:
  "plotted (mk_point years n mn rg (i, y, v)) =
   (y, v, padding_top + chartHeight - ((v - mn) / rg) * chartHeight)"
  by (simp add: plotted_def mk_point_def Let_def split: option.splits)

lemma isValid_mk_point: "isValid (mk_point years n mn rg ip)"
  by (cases ip) (simp add: mk_point_def Let_def split: option.splits)

lemma plotted_series_years:
  "map_option (map plotted) (college_series N years' mn rg c) =
   map_option (map plotted) (college_series N years mn rg c)"
proof -
  have f: "\<And>ys xs. filter isValid (map (mk_point ys (length (validPoints N c)) mn rg) xs) =
       map (mk_point ys (length (validPoints N c)) mn rg) xs"
    by (simp add: isValid_mk_point)
  have p: "\<And>ys xs. map plotted (map (mk_point ys (length (validPoints N c)) mn rg) xs) =
       map (\<lambda>(i, y, v). (y, v, padding_top + chartHeight - ((v - mn) / rg) * chartHeight)) xs"
    by (auto simp: plotted_mk_point)
  show ?thesis
    by (simp add: college_series_def Let_def f p del: map_map)
qed

lemma chart_parts:
  assumes "ComparisonGraph N (Some r) = Chart ch"
  shows "\<exists>cs v vs. comparison r = Some cs \<and> allValues N cs = v # vs \<and>
           c_minVal ch = fold min vs v \<and> c_maxVal ch = fold max vs v \<and>
           c_range ch = max (fold max vs v - fold min vs v) 1 \<and>
           c_series ch = map (college_series N (uniqueYears N cs) (fold min vs v)
                               (max (fold max vs v - fold min vs v) 1)) cs"
  using assms
  by (auto simp: ComparisonGraph_def Let_def split: option.splits list.splits if_splits)

lemma chart_drop_excluded:
  assumes "ComparisonGraph N (Some r) = Chart ch"
    and "ComparisonGraph N (Some (drop_result N r)) = Chart ch'"
  shows "c_minVal ch' = c_minVal ch \<and> c_maxVal ch' = c_maxVal ch \<and> c_range ch' = c_range ch \<and>
         map (map_option (map plotted)) (c_series ch') =
         map (map_option (map plotted)) (c_series ch)"
proof -
  from chart_parts [OF assms(1)] obtain cs v vs where
      cs: "comparison r = Some cs" and av: "allValues N cs = v # vs"
      and ch: "c_minVal ch = fold min vs v" "c_maxVal ch = fold max vs v"
        "c_range ch = max (fold max vs v - fold min vs v) 1"
        "c_series ch = map (college_series N (uniqueYears N cs) (fold min vs v)
                               (max (fold max vs v - fold min vs v) 1)) cs"
    by blast
  from chart_parts [OF assms(2)] obtain cs' v' vs' where
      cs': "comparison (drop_result N r) = Some cs'" and av': "allValues N cs' = v' # vs'"
      and ch': "c_minVal ch' = fold min vs' v'" "c_maxVal ch' = fold max vs' v'"
        "c_range ch' = max (fold max vs' v' - fold min vs' v') 1"
        "c_series ch' = map (college_series N (uniqueYears N cs') (fold min vs' v')
                               (max (fold max vs' v' - fold min vs' v') 1)) cs'"
    by blast
  from cs cs' have d: "cs' = map (drop_excluded N) cs" by (simp add: drop_result_def)
  with av av' have v: "v' = v" "vs' = vs" by (simp_all add: allValues_drop_excluded)
  have "map (map_option (map plotted)) (c_series ch') =
        map (map_option (map plotted)) (c_series ch)"
    unfolding ch ch' d v
    by (simp add: series_drop_excluded comp_def plotted_series_years [of N "uniqueYears N (map (drop_excluded N) cs)" _ _ _ "uniqueYears N cs"])
  with ch ch' v show ?thesis by simp
qed

text \<open>
  Claim C6, as amended. The values that the chart's test rejects are exactly these:
  undefined, null, \<open>NaN\<close>, and the strings that the host does not convert to a number.
  A trend point with such a value takes no part in the values that the minimum and the
  maximum are computed from, nor in the valid points and the plotted line of its college:
  removing all such points from the input changes none of them, and where the chart is
  drawn before and after, it has the same minimum, maximum and range and every line
  has the same points at the same height. (The year of a removed point may leave the
  shared axis, which moves the other points sideways.)
\<close>

theorem C6_excluded_points_ignored:
  "present_number N v = (\<not> excluded_value N v) \<and>
   allValues N (map (drop_excluded N) cs) = allValues N cs \<and>
   validPoints N (drop_excluded N c) = validPoints N c \<and>
   college_series N years mn rg (drop_excluded N c) = college_series N years mn rg c \<and>
   (ComparisonGraph N (Some r) = Chart ch \<and>
    ComparisonGraph N (Some (drop_result N r)) = Chart ch' \<longrightarrow>
      c_minVal ch' = c_minVal ch \<and> c_maxVal ch' = c_maxVal ch \<and> c_range ch' = c_range ch \<and>
      map (map_option (map plotted)) (c_series ch') =
      map (map_option (map plotted)) (c_series ch))"
  using excluded_iff [of N v] allValues_drop_excluded [of N cs]
    validPoints_drop_excluded [of N c] series_drop_excluded [of N years mn rg c]
    chart_drop_excluded [of N r ch ch']
  by blast

lemma ex_bool_renders: "ComparisonGraph no_strings (Some ex_bool) = Chart ex_bool_chart"
  by (simp add: ComparisonGraph_def ex_bool_def ex_bool_entries_def ex_bool_chart_def
      uniqueYears_def allYears_def allValues_def trend_or_empty_def
      checked_def present_number_def isNaN_def college_series_def validPoints_def
      valid_pair_def mk_point_def chart_consts Let_def enumerate_eq_zip upt_rec)

lemma ex_dropped_renders:
  "ComparisonGraph no_strings (Some (drop_result no_strings ex_trends)) = Chart ex_dropped_chart"
  by (simp add: ComparisonGraph_def drop_result_def drop_excluded_def ex_trends_def
      ex_dropped_chart_def uniqueYears_def allYears_def allValues_def trend_or_empty_def
      checked_def present_number_def isNaN_def college_series_def validPoints_def
      valid_pair_def mk_point_def chart_consts Let_def enumerate_eq_zip upt_rec)

theorem C6_witness:
  "ComparisonGraph no_strings (Some ex_trends) = Chart ex_trends_chart \<and>
   ComparisonGraph no_strings (Some (drop_result no_strings ex_trends)) = Chart ex_dropped_chart \<and>
   c_uniqueYears ex_trends_chart = [2021, 2022, 2023] \<and>
   c_uniqueYears ex_dropped_chart = [2021, 2022] \<and>
   c_minVal ex_dropped_chart = c_minVal ex_trends_chart \<and>
   c_maxVal ex_dropped_chart = c_maxVal ex_trends_chart \<and>
   c_range ex_dropped_chart = c_range ex_trends_chart \<and>
   map (map_option (map plotted)) (c_series ex_dropped_chart) =
   map (map_option (map plotted)) (c_series ex_trends_chart) \<and>
   map (map_option (map plotted)) (c_series ex_trends_chart) =
     [Some [(2021, 96, 20), (2022, 94, 116)], None]"
proof -
  have a: "ComparisonGraph no_strings (Some ex_trends) = Chart ex_trends_chart"
    by (rule ex_trends_renders)
  have b: "ComparisonGraph no_strings (Some (drop_result no_strings ex_trends)) =
           Chart ex_dropped_chart"
    by (rule ex_dropped_renders)
  from C6_excluded_points_ignored [of no_strings _ _ _ _ _ _ ex_trends ex_trends_chart
      ex_dropped_chart] a b
  have "c_minVal ex_dropped_chart = c_minVal ex_trends_chart \<and>
        c_maxVal ex_dropped_chart = c_maxVal ex_trends_chart \<and>
        c_range ex_dropped_chart = c_range ex_trends_chart \<and>
        map (map_option (map plotted)) (c_series ex_dropped_chart) =
        map (map_option (map plotted)) (c_series ex_trends_chart)"
    by blast
  moreover have "c_uniqueYears ex_trends_chart = [2021, 2022, 2023]"
    "c_uniqueYears ex_dropped_chart = [2021, 2022]"
    "map (map_option (map plotted)) (c_series ex_trends_chart) =
       [Some [(2021, 96, 20), (2022, 94, 116)], None]"
    by (simp_all add: ex_trends_chart_def ex_dropped_chart_def plotted_def)
  ultimately show ?thesis using a b by blast
qed

text \<open>
  Claim C6 as stated fails: the value \<open>true\<close> is not a number, and the point that
  carries it enters the values as 1, sets the minimum of the scale and is the first
  vertex of the line of its college.
\<close>

theorem C6_boolean_value_counterexample:
  "ex_bool_entries =
     [\<lparr>entry_name = ''A'', trend = Some [\<lparr>year = JNum 2021, val = JBool True\<rparr>,
                                          \<lparr>year = JNum 2022, val = JNum 95\<rparr>]\<rparr>] \<and>
   non_numeric (JBool True) \<and>
   allValues no_strings ex_bool_entries = [1, 95] \<and>
   ComparisonGraph no_strings (Some ex_bool) = Chart ex_bool_chart \<and>
   c_minVal ex_bool_chart = 1 \<and>
   c_series ex_bool_chart =
     [Some [\<lparr>px = 60, py = 260, pvalue = 1, pyear = 2021, isValid = True\<rparr>,
            \<lparr>px = 670, py = 20, pvalue = 95, pyear = 2022, isValid = True\<rparr>]]"
  using ex_bool_renders
  by (simp add: ex_bool_entries_def ex_bool_chart_def allValues_def trend_or_empty_def
      checked_def present_number_def isNaN_def)

end
